theory Spec2Isabelle
  imports Complex_Main "HOL-Library.Word"
begin

section \<open>Common conventions\<close>

text \<open>
  The repository is Python on top of NumPy, scikit-learn, Pillow and Keras. Python
  functions become HOL functions returning \<open>py_error + 'a\<close> (\<open>Inl\<close> is the exception
  raised). Floating-point values are modelled by \<open>real\<close> (rounding is not modelled) and
  integer arrays by lists of \<open>int\<close>. A NumPy array that the code inspects with
  \<open>len(a.shape) > 1\<close> is a value of \<open>labels\<close>: either a one-dimensional array of class
  indices or a two-dimensional (one-hot / categorical) array.
\<close>

datatype py_error = AttributeError | IndexError | ValueError | AxisError

datatype labels = Indices "int list" | Categorical "real list list"

subsection \<open>NumPy helpers\<close>

text \<open>
  \<open>np.argmax\<close> on a one-dimensional array: the index of the first occurrence of the
  maximum; \<open>ValueError\<close> on an empty array. The scan keeps the best index seen so far and
  replaces it only by a strictly larger value.
\<close>

fun argmax_scan :: "real list \<Rightarrow> nat \<Rightarrow> nat \<Rightarrow> real \<Rightarrow> nat" where
  "argmax_scan [] i best bv = best"
| "argmax_scan (x # xs) i best bv =
     (if bv < x then argmax_scan xs (Suc i) i x else argmax_scan xs (Suc i) best bv)"

definition np_argmax :: "real list \<Rightarrow> py_error + nat" where
  "np_argmax xs = (case xs of [] \<Rightarrow> Inl ValueError | x # rest \<Rightarrow> Inr (argmax_scan rest 1 0 x))"

text \<open>\<open>np.argmax(a, axis=1)\<close> and \<open>np.max(a, axis=1)\<close> on a two-dimensional array, row by row.\<close>

fun argmax_axis1 :: "real list list \<Rightarrow> py_error + int list" where
  "argmax_axis1 [] = Inr []"
| "argmax_axis1 (r # rs) =
     (case np_argmax r of
        Inl e \<Rightarrow> Inl e
      | Inr i \<Rightarrow> (case argmax_axis1 rs of Inl e \<Rightarrow> Inl e | Inr is \<Rightarrow> Inr (int i # is)))"

fun max_axis1 :: "real list list \<Rightarrow> py_error + real list" where
  "max_axis1 [] = Inr []"
| "max_axis1 (r # rs) =
     (case r of
        [] \<Rightarrow> Inl ValueError
      | x # xs \<Rightarrow> (case max_axis1 rs of Inl e \<Rightarrow> Inl e | Inr ms \<Rightarrow> Inr (fold max xs x # ms)))"

text \<open>
  \<open>np.argmax(y, axis=1)\<close> applied to an array of either rank, as \<open>calculate_roc_curves\<close>
  does: a one-dimensional array has no axis 1.
\<close>

definition np_argmax_axis1 :: "labels \<Rightarrow> py_error + int list" where
  "np_argmax_axis1 y = (case y of Indices cs \<Rightarrow> Inl AxisError | Categorical rows \<Rightarrow> argmax_axis1 rows)"

text \<open>
  Column selection \<open>a[:, j]\<close> of a two-dimensional array given by its rows; \<open>IndexError\<close>
  when \<open>j\<close> is not a column. (An array without rows is represented by \<open>[]\<close>, whatever its
  number of columns.)
\<close>

definition column :: "'a list list \<Rightarrow> nat \<Rightarrow> py_error + 'a list" where
  "column a j =
     (if list_all (\<lambda>row. j < length row) a then Inr (map (\<lambda>row. row ! j) a) else Inl IndexError)"

text \<open>
  Boolean-mask selection \<open>a[mask]\<close>: the entries of \<open>a\<close> where the mask is true;
  \<open>IndexError\<close> when the mask and the array differ in length.
\<close>

definition mask_select :: "'a list \<Rightarrow> bool list \<Rightarrow> py_error + 'a list" where
  "mask_select a m =
     (if length a \<noteq> length m then Inl IndexError
      else Inr (map fst (filter snd (zip a m))))"

text \<open>List indexing \<open>xs[i]\<close> with a non-negative index.\<close>

definition py_get :: "'a list \<Rightarrow> nat \<Rightarrow> py_error + 'a" where
  "py_get xs i = (if i < length xs then Inr (xs ! i) else Inl IndexError)"

text \<open>
  \<open>np.argmax(y, axis=1) if len(y.shape) > 1 else y\<close>: the conversion every evaluation
  function applies to its label arguments.
\<close>

definition to_class_indices :: "labels \<Rightarrow> py_error + int list" where
  "to_class_indices y = (case y of Indices cs \<Rightarrow> Inr cs | Categorical rows \<Rightarrow> argmax_axis1 rows)"

section \<open>evaluation.py: confusion matrix and per-class metrics\<close>

text \<open>
  \<open>sklearn.metrics.confusion_matrix(y_true, y_pred)\<close> called without \<open>labels=\<close>: the
  labels are those that appear at least once in either argument, in sorted order; entry
  \<open>(i, j)\<close> counts the samples whose true label is the \<open>i\<close>-th and whose predicted label
  is the \<open>j\<close>-th of them. Arguments of different lengths are rejected.
\<close>

definition unique_labels :: "int list \<Rightarrow> int list \<Rightarrow> int list" where
  "unique_labels yt yp = sort (remdups (yt @ yp))"

definition confusion_matrix :: "int list \<Rightarrow> int list \<Rightarrow> py_error + int list list" where
  "confusion_matrix yt yp =
     (if length yt \<noteq> length yp then Inl ValueError
      else let ls = unique_labels yt yp
           in Inr (map (\<lambda>a. map (\<lambda>b. int (count_list (zip yt yp) (a, b))) ls) ls))"

text \<open>Indexing of the matrix: \<open>cm[i, j]\<close>, \<open>cm[:, i].sum()\<close>, \<open>cm[i, :].sum()\<close>, \<open>cm.sum()\<close>.\<close>

definition cm_get :: "int list list \<Rightarrow> nat \<Rightarrow> nat \<Rightarrow> py_error + int" where
  "cm_get cm i j =
     (if i < length cm \<and> j < length (cm ! i) then Inr (cm ! i ! j) else Inl IndexError)"

definition cm_col_sum :: "int list list \<Rightarrow> nat \<Rightarrow> py_error + int" where
  "cm_col_sum cm j = (case column cm j of Inl e \<Rightarrow> Inl e | Inr c \<Rightarrow> Inr (sum_list c))"

definition cm_row_sum :: "int list list \<Rightarrow> nat \<Rightarrow> py_error + int" where
  "cm_row_sum cm i = (if i < length cm then Inr (sum_list (cm ! i)) else Inl IndexError)"

definition cm_sum :: "int list list \<Rightarrow> int" where
  "cm_sum cm = sum_list (map sum_list cm)"

record class_metric =
  precision :: real
  recall :: real
  f1_score :: real
  specificity :: real
  support :: int

text \<open>The body of the loop of \<open>calculate_per_class_metrics\<close> for class index \<open>i\<close>.\<close>

definition class_metrics :: "int list list \<Rightarrow> nat \<Rightarrow> py_error + class_metric" where
  "class_metrics cm i =
     (case cm_get cm i i of Inl e \<Rightarrow> Inl e | Inr tp \<Rightarrow>
     (case cm_col_sum cm i of Inl e \<Rightarrow> Inl e | Inr cs \<Rightarrow>
     (case cm_row_sum cm i of Inl e \<Rightarrow> Inl e | Inr rs \<Rightarrow>
        let fp = cs - tp;
            fn = rs - tp;
            tn = cm_sum cm - tp - fp - fn;
            p = (if tp + fp > 0 then real_of_int tp / real_of_int (tp + fp) else 0);
            r = (if tp + fn > 0 then real_of_int tp / real_of_int (tp + fn) else 0);
            f = (if p + r > 0 then 2 * (p * r) / (p + r) else 0);
            s = (if tn + fp > 0 then real_of_int tn / real_of_int (tn + fp) else 0)
        in Inr \<lparr>precision = p, recall = r, f1_score = f, specificity = s, support = rs\<rparr>)))"

fun per_class_loop ::
  "int list list \<Rightarrow> (nat \<times> string) list \<Rightarrow> (string \<rightharpoonup> class_metric)
     \<Rightarrow> py_error + (string \<rightharpoonup> class_metric)" where
  "per_class_loop cm [] acc = Inr acc"
| "per_class_loop cm ((i, class_name) # rest) acc =
     (case class_metrics cm i of
        Inl e \<Rightarrow> Inl e
      | Inr m \<Rightarrow> per_class_loop cm rest (acc(class_name \<mapsto> m)))"

definition calculate_per_class_metrics ::
  "string list \<Rightarrow> labels \<Rightarrow> labels \<Rightarrow> py_error + (string \<rightharpoonup> class_metric)" where
  "calculate_per_class_metrics class_names y_true y_pred =
     (case to_class_indices y_true of Inl e \<Rightarrow> Inl e | Inr y_true_classes \<Rightarrow>
     (case to_class_indices y_pred of Inl e \<Rightarrow> Inl e | Inr y_pred_classes \<Rightarrow>
     (case confusion_matrix y_true_classes y_pred_classes of Inl e \<Rightarrow> Inl e | Inr cm \<Rightarrow>
        per_class_loop cm (enumerate 0 class_names) Map.empty)))"

section \<open>evaluation.py: evaluate_predictions and ROC curves\<close>

text \<open>
  The scikit-learn functions the module imports are taken as parameters, each returning
  its value or the exception it raises. The weighted scores are \<open>precision_score\<close>,
  \<open>recall_score\<close> and \<open>f1_score\<close> called with \<open>average='weighted'\<close>;
  \<open>sk_label_binarize y n\<close> is \<open>label_binarize(y, classes=range(n))\<close>; \<open>sk_roc_curve\<close>
  returns the first two components (false- and true-positive rates) of \<open>roc_curve\<close>.
\<close>

record 'rep sklearn =
  sk_accuracy_score :: "int list \<Rightarrow> int list \<Rightarrow> py_error + real"
  sk_precision_score :: "int list \<Rightarrow> int list \<Rightarrow> py_error + real"
  sk_recall_score :: "int list \<Rightarrow> int list \<Rightarrow> py_error + real"
  sk_f1_score :: "int list \<Rightarrow> int list \<Rightarrow> py_error + real"
  sk_classification_report :: "int list \<Rightarrow> int list \<Rightarrow> string list \<Rightarrow> py_error + 'rep"
  sk_label_binarize :: "int list \<Rightarrow> nat \<Rightarrow> py_error + int list list"
  sk_roc_curve :: "int list \<Rightarrow> real list \<Rightarrow> py_error + (real list \<times> real list)"
  sk_auc :: "real list \<Rightarrow> real list \<Rightarrow> py_error + real"

text \<open>The dictionaries \<open>fpr\<close>, \<open>tpr\<close> and \<open>roc_auc\<close> are keyed by a class index or by \<open>"micro"\<close>.\<close>

datatype roc_key = Class nat | Micro

record roc_data =
  fpr :: "roc_key \<rightharpoonup> real list"
  tpr :: "roc_key \<rightharpoonup> real list"
  auc :: "roc_key \<rightharpoonup> real"

fun roc_loop ::
  "'rep sklearn \<Rightarrow> int list list \<Rightarrow> real list list \<Rightarrow> nat list \<Rightarrow> roc_data
     \<Rightarrow> py_error + roc_data" where
  "roc_loop sk y_true_bin y_pred_proba [] acc = Inr acc"
| "roc_loop sk y_true_bin y_pred_proba (i # rest) acc =
     (case column y_true_bin i of Inl e \<Rightarrow> Inl e | Inr yc \<Rightarrow>
     (case column y_pred_proba i of Inl e \<Rightarrow> Inl e | Inr pc \<Rightarrow>
     (case sk_roc_curve sk yc pc of Inl e \<Rightarrow> Inl e | Inr (f, t) \<Rightarrow>
     (case sk_auc sk f t of Inl e \<Rightarrow> Inl e | Inr a \<Rightarrow>
        roc_loop sk y_true_bin y_pred_proba rest
          (acc\<lparr>fpr := (fpr acc)(Class i \<mapsto> f), tpr := (tpr acc)(Class i \<mapsto> t),
               auc := (auc acc)(Class i \<mapsto> a)\<rparr>)))))"

definition calculate_roc_curves ::
  "'rep sklearn \<Rightarrow> nat \<Rightarrow> labels \<Rightarrow> real list list \<Rightarrow> py_error + roc_data" where
  "calculate_roc_curves sk num_classes y_true y_pred_proba =
     (case np_argmax_axis1 y_true of Inl e \<Rightarrow> Inl e | Inr cls \<Rightarrow>
     (case sk_label_binarize sk cls num_classes of Inl e \<Rightarrow> Inl e | Inr y_true_bin \<Rightarrow>
     (case roc_loop sk y_true_bin y_pred_proba [0..<num_classes]
             \<lparr>fpr = Map.empty, tpr = Map.empty, auc = Map.empty\<rparr> of
        Inl e \<Rightarrow> Inl e
      | Inr d \<Rightarrow>
     (case sk_roc_curve sk (concat y_true_bin) (concat y_pred_proba) of
        Inl e \<Rightarrow> Inl e
      | Inr (f, t) \<Rightarrow>
     (case sk_auc sk f t of
        Inl e \<Rightarrow> Inl e
      | Inr a \<Rightarrow>
          Inr (d\<lparr>fpr := (fpr d)(Micro \<mapsto> f), tpr := (tpr d)(Micro \<mapsto> t),
                 auc := (auc d)(Micro \<mapsto> a)\<rparr>))))))"

record 'rep evaluation =
  res_accuracy :: real
  res_precision :: real
  res_recall :: real
  res_f1_score :: real
  res_classification_report :: 'rep
  res_confusion_matrix :: "int list list"
  res_roc_curves :: "roc_data option"

definition evaluate_predictions ::
  "'rep sklearn \<Rightarrow> string list \<Rightarrow> labels \<Rightarrow> labels \<Rightarrow> real list list option
     \<Rightarrow> py_error + 'rep evaluation" where
  "evaluate_predictions sk class_names y_true y_pred y_pred_proba =
     (case to_class_indices y_true of Inl e \<Rightarrow> Inl e | Inr y_true_classes \<Rightarrow>
     (case to_class_indices y_pred of Inl e \<Rightarrow> Inl e | Inr y_pred_classes \<Rightarrow>
     (case sk_accuracy_score sk y_true_classes y_pred_classes of Inl e \<Rightarrow> Inl e | Inr a \<Rightarrow>
     (case sk_precision_score sk y_true_classes y_pred_classes of Inl e \<Rightarrow> Inl e | Inr p \<Rightarrow>
     (case sk_recall_score sk y_true_classes y_pred_classes of Inl e \<Rightarrow> Inl e | Inr r \<Rightarrow>
     (case sk_f1_score sk y_true_classes y_pred_classes of Inl e \<Rightarrow> Inl e | Inr f \<Rightarrow>
     (case sk_classification_report sk y_true_classes y_pred_classes class_names of
        Inl e \<Rightarrow> Inl e
      | Inr report \<Rightarrow>
     (case confusion_matrix y_true_classes y_pred_classes of Inl e \<Rightarrow> Inl e | Inr cm \<Rightarrow>
        let results = \<lparr>res_accuracy = a, res_precision = p, res_recall = r, res_f1_score = f,
                         res_classification_report = report, res_confusion_matrix = cm,
                         res_roc_curves = None\<rparr>
        in (case y_pred_proba of
              None \<Rightarrow> Inr results
            | Some proba \<Rightarrow>
                (case calculate_roc_curves sk (length class_names) y_true proba of
                   Inl e \<Rightarrow> Inl e
                 | Inr roc \<Rightarrow> Inr (results\<lparr>res_roc_curves := Some roc\<rparr>)))))))))))"

section \<open>evaluation.py: confidence calibration\<close>

text \<open>
  A NumPy float that may be NaN is a \<open>real option\<close>, \<open>None\<close> being NaN: the mean of an
  empty array is NaN, NaN propagates through arithmetic, and every comparison with NaN
  is false.
\<close>

type_synonym npfloat = "real option"

definition np_mean :: "real list \<Rightarrow> npfloat" where
  "np_mean xs = (if xs = [] then None else Some (sum_list xs / real (length xs)))"

definition np_mean_bool :: "bool list \<Rightarrow> npfloat" where
  "np_mean_bool bs = np_mean (map of_bool bs)"

definition fgt0 :: "npfloat \<Rightarrow> bool" where
  "fgt0 a = (case a of None \<Rightarrow> False | Some x \<Rightarrow> 0 < x)"

definition fadd :: "npfloat \<Rightarrow> npfloat \<Rightarrow> npfloat" where
  "fadd a b = (case a of None \<Rightarrow> None | Some x \<Rightarrow> (case b of None \<Rightarrow> None | Some y \<Rightarrow> Some (x + y)))"

definition fmul :: "npfloat \<Rightarrow> npfloat \<Rightarrow> npfloat" where
  "fmul a b = (case a of None \<Rightarrow> None | Some x \<Rightarrow> (case b of None \<Rightarrow> None | Some y \<Rightarrow> Some (x * y)))"

definition fabs_diff :: "npfloat \<Rightarrow> npfloat \<Rightarrow> npfloat" where
  "fabs_diff a b =
     (case a of None \<Rightarrow> None | Some x \<Rightarrow> (case b of None \<Rightarrow> None | Some y \<Rightarrow> Some \<bar>x - y\<bar>))"

text \<open>
  \<open>np.linspace(0, 1, num)\<close>: \<open>num\<close> evenly spaced points from 0 to 1 inclusive;
  \<open>ValueError\<close> for a negative \<open>num\<close>.
\<close>

definition linspace01 :: "int \<Rightarrow> py_error + real list" where
  "linspace01 num =
     (if num < 0 then Inl ValueError
      else if num = 1 then Inr [0]
      else Inr (map (\<lambda>i. real i / real_of_int (num - 1)) [0..<nat num]))"

text \<open>\<open>(max_probs > bin_lower) & (max_probs <= bin_upper)\<close>\<close>

definition in_bin :: "real \<Rightarrow> real \<Rightarrow> real list \<Rightarrow> bool list" where
  "in_bin bin_lower bin_upper max_probs = map (\<lambda>p. bin_lower < p \<and> p \<le> bin_upper) max_probs"

text \<open>
  The body of the first loop: the accuracy and the mean confidence appended for one bin.
  Both operands of \<open>==\<close> are selected by the same mask, so they have the same length.
\<close>

definition bin_accuracy_confidence ::
  "int list \<Rightarrow> int list \<Rightarrow> real list \<Rightarrow> real \<times> real \<Rightarrow> py_error + (npfloat \<times> npfloat)" where
  "bin_accuracy_confidence y_true_classes pred_classes max_probs b =
     (let sel = in_bin (fst b) (snd b) max_probs;
          prop_in_bin = np_mean_bool sel
      in if fgt0 prop_in_bin then
           (case mask_select y_true_classes sel of Inl e \<Rightarrow> Inl e | Inr yt \<Rightarrow>
           (case mask_select pred_classes sel of Inl e \<Rightarrow> Inl e | Inr yp \<Rightarrow>
           (case mask_select max_probs sel of Inl e \<Rightarrow> Inl e | Inr ps \<Rightarrow>
              Inr (np_mean_bool (map2 (=) yt yp), np_mean ps))))
         else Inr (Some 0, Some 0))"

fun calibration_bins ::
  "int list \<Rightarrow> int list \<Rightarrow> real list \<Rightarrow> (real \<times> real) list
     \<Rightarrow> py_error + (npfloat list \<times> npfloat list)" where
  "calibration_bins y_true_classes pred_classes max_probs [] = Inr ([], [])"
| "calibration_bins y_true_classes pred_classes max_probs (b # bs) =
     (case bin_accuracy_confidence y_true_classes pred_classes max_probs b of
        Inl e \<Rightarrow> Inl e
      | Inr (a, c) \<Rightarrow>
     (case calibration_bins y_true_classes pred_classes max_probs bs of
        Inl e \<Rightarrow> Inl e
      | Inr (accs, confs) \<Rightarrow> Inr (a # accs, c # confs)))"

text \<open>The second loop: \<open>ece += prop_in_bin * abs(accuracies[i] - confidences[i])\<close>.\<close>

fun ece_loop ::
  "real list \<Rightarrow> npfloat list \<Rightarrow> npfloat list \<Rightarrow> (nat \<times> real \<times> real) list \<Rightarrow> npfloat
     \<Rightarrow> py_error + npfloat" where
  "ece_loop max_probs accuracies confidences [] ece = Inr ece"
| "ece_loop max_probs accuracies confidences ((i, b) # rest) ece =
     (let prop_in_bin = np_mean_bool (in_bin (fst b) (snd b) max_probs)
      in (case py_get accuracies i of Inl e \<Rightarrow> Inl e | Inr a \<Rightarrow>
         (case py_get confidences i of Inl e \<Rightarrow> Inl e | Inr c \<Rightarrow>
            ece_loop max_probs accuracies confidences rest
              (fadd ece (fmul prop_in_bin (fabs_diff a c))))))"

record calibration =
  accuracies :: "npfloat list"
  confidences :: "npfloat list"
  expected_calibration_error :: npfloat
  bin_boundaries :: "real list"

definition calculate_confidence_calibration ::
  "labels \<Rightarrow> real list list \<Rightarrow> int \<Rightarrow> py_error + calibration" where
  "calculate_confidence_calibration y_true y_pred_proba n_bins =
     (case to_class_indices y_true of Inl e \<Rightarrow> Inl e | Inr y_true_classes \<Rightarrow>
     (case max_axis1 y_pred_proba of Inl e \<Rightarrow> Inl e | Inr max_probs \<Rightarrow>
     (case argmax_axis1 y_pred_proba of Inl e \<Rightarrow> Inl e | Inr pred_classes \<Rightarrow>
     (case linspace01 (n_bins + 1) of Inl e \<Rightarrow> Inl e | Inr boundaries \<Rightarrow>
        let bins = zip (butlast boundaries) (tl boundaries)
        in (case calibration_bins y_true_classes pred_classes max_probs bins of
              Inl e \<Rightarrow> Inl e
            | Inr (accs, confs) \<Rightarrow>
           (case ece_loop max_probs accs confs (enumerate 0 bins) (Some 0) of
              Inl e \<Rightarrow> Inl e
            | Inr ece \<Rightarrow>
                Inr \<lparr>accuracies = accs, confidences = confs,
                     expected_calibration_error = ece, bin_boundaries = boundaries\<rparr>))))))"

subsection \<open>The calibration quantities as the specification words them\<close>

text \<open>
  The specification partitions the predictions into equal-width confidence intervals over
  (0,1]; a bin's accuracy is the fraction of its predictions that are correct, its
  confidence the mean top-class probability of its predictions (both 0 for an empty
  bin), and the Expected Calibration Error is the sum over the bins of the fraction of
  all predictions in the bin times the absolute gap between the two. A prediction is a
  triple of true class, predicted class and top-class probability.
\<close>

definition equal_width_bins :: "nat \<Rightarrow> (real \<times> real) list" where
  "equal_width_bins n = map (\<lambda>i. (real i / real n, real (Suc i) / real n)) [0..<n]"

definition bin_samples :: "real \<times> real \<Rightarrow> (int \<times> int \<times> real) list \<Rightarrow> (int \<times> int \<times> real) list" where
  "bin_samples b samples = filter (\<lambda>s. fst b < snd (snd s) \<and> snd (snd s) \<le> snd b) samples"

definition spec_bin_weight :: "real \<times> real \<Rightarrow> (int \<times> int \<times> real) list \<Rightarrow> real" where
  "spec_bin_weight b samples = real (length (bin_samples b samples)) / real (length samples)"

definition spec_bin_accuracy :: "real \<times> real \<Rightarrow> (int \<times> int \<times> real) list \<Rightarrow> real" where
  "spec_bin_accuracy b samples =
     (let m = bin_samples b samples
      in if m = [] then 0
         else real (length (filter (\<lambda>s. fst s = fst (snd s)) m)) / real (length m))"

definition spec_bin_confidence :: "real \<times> real \<Rightarrow> (int \<times> int \<times> real) list \<Rightarrow> real" where
  "spec_bin_confidence b samples =
     (let m = bin_samples b samples
      in if m = [] then 0 else sum_list (map (\<lambda>s. snd (snd s)) m) / real (length m))"

definition spec_ece :: "(real \<times> real) list \<Rightarrow> (int \<times> int \<times> real) list \<Rightarrow> real" where
  "spec_ece bins samples =
     sum_list (map (\<lambda>b. spec_bin_weight b samples
                          * \<bar>spec_bin_accuracy b samples - spec_bin_confidence b samples\<bar>) bins)"

text \<open>
  The predictions of a batch: for each row of the probability matrix the true class, the
  predicted class (the class of top probability, the lowest index among ties) and the
  top-class probability.
\<close>

definition top_probability :: "real list \<Rightarrow> real" where
  "top_probability row = Max (set row)"

definition top_class :: "real list \<Rightarrow> int" where
  "top_class row = int (length (takeWhile (\<lambda>p. p \<noteq> top_probability row) row))"

definition prediction_samples :: "int list \<Rightarrow> real list list \<Rightarrow> (int \<times> int \<times> real) list" where
  "prediction_samples y_true_classes proba =
     zip y_true_classes (zip (map top_class proba) (map top_probability proba))"

section \<open>disease_model.py: the classifier\<close>

text \<open>
  A Keras layer carries its \<open>trainable\<close> flag and, when it is itself a model, its own
  \<open>layers\<close> (\<open>None\<close> for a plain layer, which has no such attribute). Assigning
  \<open>trainable\<close> on a layer assigns it on all its sublayers as well.
\<close>

datatype layer = Layer (trainable: bool) (sublayers: "layer list option")

fun set_trainable :: "bool \<Rightarrow> layer \<Rightarrow> layer" where
  "set_trainable b (Layer t subs) = Layer b (map_option (map (set_trainable b)) subs)"

text \<open>The Python slice \<open>xs[:-k]\<close> for an integer \<open>k\<close> (note \<open>xs[:-0] = xs[:0] = []\<close>).\<close>

definition slice_upto_neg :: "'a list \<Rightarrow> int \<Rightarrow> 'a list" where
  "slice_upto_neg xs k =
     (if 0 < k then take (length xs - nat k) xs
      else if k = 0 then []
      else take (nat (- k)) xs)"

datatype callback =
    EarlyStopping string nat bool
  | ModelCheckpoint string bool string
  | ReduceLROnPlateau string real nat real

text \<open>
  The Keras model object held in \<open>self.model\<close>: its layers, the learning rate of the Adam
  optimizer bound by the last \<open>compile\<close> (\<open>None\<close> before the first), and its parameters.
\<close>

record 'w keras_model =
  layers :: "layer list"
  optimizer :: "real option"
  weights :: 'w

text \<open>
  \<open>Model.fit\<close> and \<open>Model.predict\<close> are parameters. \<open>fit\<close> maps the model, the training
  and validation data, the epoch count and the callbacks to a history, the trained
  parameters and the learning rate the optimizer is left with (\<open>ReduceLROnPlateau\<close> may
  lower it); training changes neither the layers nor their \<open>trainable\<close> flags. \<open>forward\<close>
  maps the model and a batch to one probability vector per batch item.
\<close>

type_synonym ('w, 'd, 'h) keras_fit =
  "'w keras_model \<Rightarrow> 'd \<Rightarrow> 'd \<Rightarrow> int \<Rightarrow> callback list \<Rightarrow> py_error + ('h \<times> 'w \<times> real option)"

type_synonym ('w, 'x) keras_predict = "'w keras_model \<Rightarrow> 'x \<Rightarrow> py_error + real list list"

record ('w, 'h) plant_disease_model =
  num_classes :: int
  input_shape :: "nat \<times> nat \<times> nat"
  model :: "'w keras_model option"
  history :: "'h option"

text \<open>\<open>__init__\<close>: no model and no history yet.\<close>

definition init_model :: "int \<Rightarrow> nat \<times> nat \<times> nat \<Rightarrow> ('w, 'h) plant_disease_model" where
  "init_model n shape = \<lparr>num_classes = n, input_shape = shape, model = None, history = None\<rparr>"

text \<open>
  \<open>build_model\<close>. \<open>EfficientNetB0(weights='imagenet', include_top=False, input_shape=...)\<close>
  is a parameter: it returns the layers that follow the input layer of the backbone and
  the pretrained parameters, or raises when the weights cannot be loaded; \<open>init_head\<close>
  adds the freshly initialised parameters of a head of the given width. The backbone is a
  Keras functional model, so its \<open>layers\<close> are its \<open>InputLayer\<close>, a plain layer, followed
  by the others; \<open>base_model.trainable = False\<close> freezes all of them.
  \<open>Model(inputs=base_model.input, outputs=predictions)\<close> is the functional model over the
  same graph: its \<open>layers\<close> are those of the backbone, input layer first, followed by the
  five head layers (pooling, dropout, dense, dropout, dense). The backbone is not a
  sublayer of it.
\<close>

definition build_model ::
  "(nat \<times> nat \<times> nat \<Rightarrow> py_error + (layer list \<times> 'w)) \<Rightarrow> ('w \<Rightarrow> int \<Rightarrow> 'w)
     \<Rightarrow> ('w, 'h) plant_disease_model \<Rightarrow> py_error + ('w, 'h) plant_disease_model" where
  "build_model efficientnet_b0 init_head self =
     (case efficientnet_b0 (input_shape self) of
        Inl e \<Rightarrow> Inl e
      | Inr (backbone_layers, pretrained) \<Rightarrow>
          let base_layers = map (set_trainable False) (Layer True None # backbone_layers);
              head_layers = replicate 5 (Layer True None)
          in Inr (self\<lparr>model := Some \<lparr>layers = base_layers @ head_layers, optimizer = None,
                                        weights = init_head pretrained (num_classes self)\<rparr>\<rparr>))"

text \<open>
  \<open>compile_model\<close>: \<open>self.model.compile(optimizer=Adam(learning_rate=learning_rate), ...)\<close>;
  an attribute access on \<open>None\<close> raises \<open>AttributeError\<close>. The default of the parameter
  is \<open>0.001\<close>.
\<close>

definition default_learning_rate :: real where
  "default_learning_rate = 0.001"

definition compile_model ::
  "('w, 'h) plant_disease_model \<Rightarrow> real \<Rightarrow> py_error + ('w, 'h) plant_disease_model" where
  "compile_model self learning_rate =
     (case model self of
        None \<Rightarrow> Inl AttributeError
      | Some m \<Rightarrow> Inr (self\<lparr>model := Some (m\<lparr>optimizer := Some learning_rate\<rparr>)\<rparr>))"



text \<open>
  The statements of \<open>fine_tune\<close> before the call of \<open>fit\<close>: take \<open>self.model.layers[0]\<close>,
  make it trainable, freeze its layers \<open>[:-unfreeze_layers]\<close>, and recompile with
  \<open>Adam(learning_rate=0.0001/10)\<close>.
\<close>

definition fine_tune_prepare :: "'w keras_model \<Rightarrow> int \<Rightarrow> py_error + 'w keras_model" where
  "fine_tune_prepare m unfreeze_layers =
     (case layers m of
        [] \<Rightarrow> Inl IndexError
      | l0 # rest \<Rightarrow>
          let base_model = set_trainable True l0
          in (case sublayers base_model of
                None \<Rightarrow> Inl AttributeError
              | Some subs \<Rightarrow>
                  let bottom = slice_upto_neg subs unfreeze_layers;
                      subs' = map (set_trainable False) bottom @ drop (length bottom) subs
                  in Inr (m\<lparr>layers := Layer (trainable base_model) (Some subs') # rest,
                            optimizer := Some (0.0001 / 10)\<rparr>)))"

definition fine_tune_callbacks :: "callback list" where
  "fine_tune_callbacks =
     [EarlyStopping ''val_accuracy'' 5 True,
      ModelCheckpoint ''models/fine_tuned_model.h5'' True ''val_accuracy'',
      ReduceLROnPlateau ''val_loss'' 0.2 3 0.00001]"

text \<open>
  \<open>fine_tune\<close> returns the history of its own \<open>fit\<close> call and does not store it in
  \<open>self.history\<close>. The object state left behind by a raised exception is not modelled.
\<close>

definition fine_tune ::
  "('w, 'd, 'h) keras_fit \<Rightarrow> ('w, 'h) plant_disease_model \<Rightarrow> 'd \<Rightarrow> 'd \<Rightarrow> int \<Rightarrow> int
     \<Rightarrow> py_error + ('h \<times> ('w, 'h) plant_disease_model)" where
  "fine_tune fit self train_data val_data epochs unfreeze_layers =
     (case model self of
        None \<Rightarrow> Inl AttributeError
      | Some m \<Rightarrow>
     (case fine_tune_prepare m unfreeze_layers of
        Inl e \<Rightarrow> Inl e
      | Inr m1 \<Rightarrow>
     (case fit m1 train_data val_data epochs fine_tune_callbacks of
        Inl e \<Rightarrow> Inl e
      | Inr (fine_tune_history, w, r) \<Rightarrow>
          Inr (fine_tune_history, self\<lparr>model := Some (m1\<lparr>weights := w, optimizer := r\<rparr>)\<rparr>))))"

text \<open>
  \<open>predict_disease\<close>: the first row of the forward pass, its \<open>np.argmax\<close>, the probability
  at that index, and the class name at that index.
\<close>

definition predict_disease ::
  "('w, 'x) keras_predict \<Rightarrow> ('w, 'h) plant_disease_model \<Rightarrow> 'x \<Rightarrow> string list
     \<Rightarrow> py_error + (string \<times> real \<times> real list)" where
  "predict_disease forward self image_array class_names =
     (case model self of
        None \<Rightarrow> Inl AttributeError
      | Some m \<Rightarrow>
     (case forward m image_array of Inl e \<Rightarrow> Inl e | Inr prediction \<Rightarrow>
     (case py_get prediction 0 of Inl e \<Rightarrow> Inl e | Inr p0 \<Rightarrow>
     (case np_argmax p0 of Inl e \<Rightarrow> Inl e | Inr predicted_class_idx \<Rightarrow>
     (case py_get p0 predicted_class_idx of Inl e \<Rightarrow> Inl e | Inr confidence \<Rightarrow>
     (case py_get class_names predicted_class_idx of Inl e \<Rightarrow> Inl e | Inr predicted_class \<Rightarrow>
        Inr (predicted_class, confidence, p0)))))))"

text \<open>
  \<open>load_model\<close>: \<open>self.model = tf.keras.models.load_model(filepath)\<close>, with the Keras
  loader as a parameter; whatever model the file holds replaces the one in memory.
\<close>

definition load_model ::
  "(string \<Rightarrow> py_error + 'w keras_model) \<Rightarrow> ('w, 'h) plant_disease_model \<Rightarrow> string
     \<Rightarrow> py_error + ('w, 'h) plant_disease_model" where
  "load_model keras_load_model self filepath =
     (case keras_load_model filepath of
        Inl e \<Rightarrow> Inl e
      | Inr m \<Rightarrow> Inr (self\<lparr>model := Some m\<rparr>))"

subsection \<open>Example states\<close>

text \<open>
  A small backbone of three layers after its input layer, with no parameters to speak
  of. \<open>example_built\<close> is what \<open>build_model\<close> makes of it for 38 classes: the input layer,
  the three backbone layers, all frozen, and the five head layers.
  \<open>example_compiled lr\<close> is that state after \<open>compile_model\<close> with rate \<open>lr\<close>, and
  \<open>example_trained lr\<close> the state after a \<open>train_initial\<close> whose \<open>fit\<close> is
  \<open>recording_fit\<close>.
\<close>

definition example_efficientnet :: "nat \<times> nat \<times> nat \<Rightarrow> py_error + (layer list \<times> unit)" where
  "example_efficientnet shape = Inr ([Layer True None, Layer True None, Layer True None], ())"

definition example_init_head :: "unit \<Rightarrow> int \<Rightarrow> unit" where
  "example_init_head pretrained n = ()"

definition example_flat_layers :: "layer list" where
  "example_flat_layers =
     [Layer False None, Layer False None, Layer False None, Layer False None,
      Layer True None, Layer True None, Layer True None, Layer True None, Layer True None]"

definition example_built :: "(unit, 'h) plant_disease_model" where
  "example_built =
     \<lparr>num_classes = 38, input_shape = (224, 224, 3),
      model = Some \<lparr>layers = example_flat_layers, optimizer = None, weights = ()\<rparr>,
      history = None\<rparr>"

definition example_compiled :: "real \<Rightarrow> (unit, 'h) plant_disease_model" where
  "example_compiled lr =
     \<lparr>num_classes = 38, input_shape = (224, 224, 3),
      model = Some \<lparr>layers = example_flat_layers, optimizer = Some lr, weights = ()\<rparr>,
      history = None\<rparr>"


text \<open>
  A \<open>fit\<close> that trains nothing and returns, as its history, the learning rate of the
  optimizer of the model it was called on. It makes the rate in effect observable.
\<close>

definition recording_fit :: "(unit, unit, real option) keras_fit" where
  "recording_fit m train_data val_data epochs callbacks = Inr (optimizer m, weights m, optimizer m)"

text \<open>
  A saved model of another architecture, as \<open>load_model\<close> may find on disk: a sequential
  model whose first layer is the backbone as a whole, a model with three layers of its
  own, followed by one head layer. \<open>example_loaded\<close> is a fresh object after \<open>load_model\<close>
  with a loader that finds this model, \<open>example_loaded_compiled lr\<close> that state after
  \<open>compile_model\<close> with rate \<open>lr\<close>.
\<close>

definition example_nested_layers :: "layer list" where
  "example_nested_layers =
     [Layer False (Some [Layer False None, Layer False None, Layer False None]), Layer True None]"

definition example_loader :: "string \<Rightarrow> py_error + unit keras_model" where
  "example_loader filepath =
     Inr \<lparr>layers = example_nested_layers, optimizer = None, weights = ()\<rparr>"

definition example_loaded :: "(unit, 'h) plant_disease_model" where
  "example_loaded =
     \<lparr>num_classes = 38, input_shape = (224, 224, 3),
      model = Some \<lparr>layers = example_nested_layers, optimizer = None, weights = ()\<rparr>,
      history = None\<rparr>"

definition example_loaded_compiled :: "real \<Rightarrow> (unit, 'h) plant_disease_model" where
  "example_loaded_compiled lr =
     \<lparr>num_classes = 38, input_shape = (224, 224, 3),
      model = Some \<lparr>layers = example_nested_layers, optimizer = Some lr, weights = ()\<rparr>,
      history = None\<rparr>"

section \<open>preprocessing.py: preprocess_image\<close>

text \<open>
  Pillow is a parameter: an image type \<open>'img\<close> with its mode and its size (width, height),
  \<open>Image.fromarray\<close>, \<open>resize(size, LANCZOS)\<close>, \<open>convert('RGB')\<close> and \<open>np.array(image)\<close>,
  which for an RGB image is an array of unsigned bytes indexed by row, column and band.
\<close>

datatype image_mode =
  Mode1 | ModeL | ModeP | ModeRGB | ModeRGBA | ModeCMYK | ModeYCbCr | ModeLAB | ModeHSV | ModeI | ModeF

record ('img, 'arr) pillow =
  fromarray :: "'arr \<Rightarrow> py_error + 'img"
  resize_lanczos :: "'img \<Rightarrow> nat \<times> nat \<Rightarrow> py_error + 'img"
  convert_rgb :: "'img \<Rightarrow> py_error + 'img"
  mode_of :: "'img \<Rightarrow> image_mode"
  size_of :: "'img \<Rightarrow> nat \<times> nat"
  np_array :: "'img \<Rightarrow> 8 word list list list"

datatype ('img, 'arr) image_input = PILImage 'img | NdArray 'arr

text \<open>The result: a byte array, or a \<open>float32\<close> array after normalisation.\<close>

datatype tensor = UInt8 "8 word list list list list" | Float32 "real list list list list"

record image_preprocessor =
  target_size :: "nat \<times> nat"

definition default_preprocessor :: image_preprocessor where
  "default_preprocessor = \<lparr>target_size = (224, 224)\<rparr>"

definition preprocess_image ::
  "('img, 'arr) pillow \<Rightarrow> image_preprocessor \<Rightarrow> ('img, 'arr) image_input \<Rightarrow> bool
     \<Rightarrow> py_error + tensor" where
  "preprocess_image pil self img do_normalize =
     (case (case img of NdArray a \<Rightarrow> fromarray pil a | PILImage i \<Rightarrow> Inr i) of
        Inl e \<Rightarrow> Inl e
      | Inr img0 \<Rightarrow>
     (case resize_lanczos pil img0 (target_size self) of
        Inl e \<Rightarrow> Inl e
      | Inr img1 \<Rightarrow>
     (case (if mode_of pil img1 \<noteq> ModeRGB then convert_rgb pil img1 else Inr img1) of
        Inl e \<Rightarrow> Inl e
      | Inr img2 \<Rightarrow>
          let img_array = np_array pil img2
          in Inr (if do_normalize
                  then Float32 [map (map (map (\<lambda>b. real (unat b) / 255))) img_array]
                  else UInt8 [img_array]))))"

text \<open>Shapes of nested lists read as arrays.\<close>

definition has_shape3 :: "'a list list list \<Rightarrow> nat \<times> nat \<times> nat \<Rightarrow> bool" where
  "has_shape3 a sh =
     (case sh of (h, w, c) \<Rightarrow>
        length a = h \<and> list_all (\<lambda>row. length row = w \<and> list_all (\<lambda>px. length px = c) row) a)"

definition has_shape4 :: "'a list list list list \<Rightarrow> nat \<times> nat \<times> nat \<times> nat \<Rightarrow> bool" where
  "has_shape4 t sh = (case sh of (n, sh3) \<Rightarrow> length t = n \<and> list_all (\<lambda>a. has_shape3 a sh3) t)"

definition all_entries :: "('a \<Rightarrow> bool) \<Rightarrow> 'a list list list list \<Rightarrow> bool" where
  "all_entries P t = list_all (list_all (list_all (list_all P))) t"

text \<open>
  What Pillow guarantees and \<open>preprocess_image\<close> relies on: resizing an image of
  non-zero size to a non-zero size succeeds and yields an image of that size and the same
  mode; converting to RGB succeeds and yields an RGB image of the same size; the array of
  an RGB image of size (width, height) has shape (height, width, 3).
\<close>

definition nonzero_size :: "('img, 'arr) pillow \<Rightarrow> 'img \<Rightarrow> bool" where
  "nonzero_size pil img = (0 < fst (size_of pil img) \<and> 0 < snd (size_of pil img))"

definition pillow_contract :: "('img, 'arr) pillow \<Rightarrow> bool" where
  "pillow_contract pil =
     ((\<forall>img w h. nonzero_size pil img \<and> 0 < w \<and> 0 < h \<longrightarrow>
         (\<exists>r. resize_lanczos pil img (w, h) = Inr r \<and> size_of pil r = (w, h)
               \<and> mode_of pil r = mode_of pil img)) \<and>
      (\<forall>img. \<exists>r. convert_rgb pil img = Inr r \<and> mode_of pil r = ModeRGB
               \<and> size_of pil r = size_of pil img) \<and>
      (\<forall>img. mode_of pil img = ModeRGB \<longrightarrow>
         has_shape3 (np_array pil img) (snd (size_of pil img), fst (size_of pil img), 3)))"

text \<open>
  A valid input: a Pillow image of non-zero size, or an array that \<open>Image.fromarray\<close>
  turns into one.
\<close>

definition valid_image :: "('img, 'arr) pillow \<Rightarrow> ('img, 'arr) image_input \<Rightarrow> bool" where
  "valid_image pil img =
     (case img of
        PILImage i \<Rightarrow> nonzero_size pil i
      | NdArray a \<Rightarrow> (case fromarray pil a of Inl e \<Rightarrow> False | Inr i \<Rightarrow> nonzero_size pil i))"

subsection \<open>An example Pillow\<close>

text \<open>
  A minimal implementation of the Pillow interface: an image is its mode and its size,
  and every pixel is black. Arrays are images already.
\<close>

definition solid_pillow :: "(image_mode \<times> nat \<times> nat, image_mode \<times> nat \<times> nat) pillow" where
  "solid_pillow =
     \<lparr>fromarray = (\<lambda>a. Inr a),
      resize_lanczos = (\<lambda>i sz. Inr (fst i, sz)),
      convert_rgb = (\<lambda>i. Inr (ModeRGB, snd i)),
      mode_of = fst,
      size_of = snd,
      np_array = (\<lambda>i. replicate (snd (snd i)) (replicate (fst (snd i)) (replicate 3 0)))\<rparr>"

section \<open>Properties of np.argmax\<close>

text \<open>
  The scan invariant: with \<open>pre\<close> the part already read, \<open>best\<close> is the first position
  of the maximum \<open>bv\<close> of \<open>pre\<close>. Then the result is the first position of the maximum
  of the whole list.
\<close>

lemma argmax_scan_inv:
  assumes "i = length pre" "best < i" "pre ! best = bv"
    "\<forall>j<i. pre ! j \<le> bv" "\<forall>j<best. pre ! j < bv"
  shows "let r = argmax_scan xs i best bv in
           r < length (pre @ xs) \<and> (\<forall>j<length (pre @ xs). (pre @ xs) ! j \<le> (pre @ xs) ! r)
           \<and> (\<forall>j<r. (pre @ xs) ! j < (pre @ xs) ! r)"
  using assms
proof (induction xs arbitrary: pre i best bv)
  case Nil
  then show ?case by (simp add: Let_def)
next
  case (Cons x xs)
  show ?case
  proof (cases "bv < x")
    case True
    have "let r = argmax_scan xs (Suc i) i x in
           r < length ((pre @ [x]) @ xs)
           \<and> (\<forall>j<length ((pre @ [x]) @ xs). ((pre @ [x]) @ xs) ! j \<le> ((pre @ [x]) @ xs) ! r)
           \<and> (\<forall>j<r. ((pre @ [x]) @ xs) ! j < ((pre @ [x]) @ xs) ! r)"
    proof (rule Cons.IH)
      show "Suc i = length (pre @ [x])" using Cons.prems by simp
      show "i < Suc i" by simp
      show "(pre @ [x]) ! i = x" using Cons.prems by (simp add: nth_append)
      show "\<forall>j<Suc i. (pre @ [x]) ! j \<le> x"
        using Cons.prems True by (auto simp: nth_append less_Suc_eq)
      show "\<forall>j<i. (pre @ [x]) ! j < x"
        using Cons.prems True by (auto simp: nth_append)
    qed
    then show ?thesis using True by simp
  next
    case False
    have "let r = argmax_scan xs (Suc i) best bv in
           r < length ((pre @ [x]) @ xs)
           \<and> (\<forall>j<length ((pre @ [x]) @ xs). ((pre @ [x]) @ xs) ! j \<le> ((pre @ [x]) @ xs) ! r)
           \<and> (\<forall>j<r. ((pre @ [x]) @ xs) ! j < ((pre @ [x]) @ xs) ! r)"
    proof (rule Cons.IH)
      show "Suc i = length (pre @ [x])" using Cons.prems by simp
      show "best < Suc i" using Cons.prems by simp
      show "(pre @ [x]) ! best = bv" using Cons.prems by (simp add: nth_append)
      show "\<forall>j<Suc i. (pre @ [x]) ! j \<le> bv"
        using Cons.prems False by (auto simp: nth_append less_Suc_eq)
      show "\<forall>j<best. (pre @ [x]) ! j < bv"
        using Cons.prems by (auto simp: nth_append)
    qed
    then show ?thesis using False by simp
  qed
qed

lemma np_argmax_first_max:
  assumes "p \<noteq> []"
  shows "\<exists>i. np_argmax p = Inr i \<and> i < length p \<and> (\<forall>j<length p. p ! j \<le> p ! i)
             \<and> (\<forall>j<i. p ! j < p ! i)"
proof -
  obtain x xs where p: "p = x # xs" using assms by (cases p) auto
  have "let r = argmax_scan xs (Suc 0) 0 x in
           r < length ([x] @ xs) \<and> (\<forall>j<length ([x] @ xs). ([x] @ xs) ! j \<le> ([x] @ xs) ! r)
           \<and> (\<forall>j<r. ([x] @ xs) ! j < ([x] @ xs) ! r)"
    by (rule argmax_scan_inv) simp_all
  then show ?thesis by (simp add: p np_argmax_def Let_def)
qed

section \<open>Prediction\<close>

text \<open>
  C2. When a model is present, the forward pass returns a batch whose first row \<open>p\<close> is a
  non-empty probability vector, and there is a class name for every entry of \<open>p\<close>, then
  \<open>predict_disease\<close> returns the class name at index \<open>i\<close>, the entry \<open>p ! i\<close> itself as
  the confidence, and \<open>p\<close> unchanged, where \<open>i\<close> is an index of a maximal entry of \<open>p\<close>
  and every entry before \<open>i\<close> is strictly smaller: among tied maxima the lowest index
  is selected.
\<close>

theorem predict_disease_argmax:
  assumes "model self = Some m" and "forward m x = Inr (p # ps)" and "p \<noteq> []"
    and "length p \<le> length class_names"
  shows "\<exists>i. predict_disease forward self x class_names = Inr (class_names ! i, p ! i, p)
           \<and> i < length p \<and> (\<forall>j<length p. p ! j \<le> p ! i) \<and> (\<forall>j<i. p ! j < p ! i)"
proof -
  obtain i where i: "np_argmax p = Inr i" "i < length p" "\<forall>j<length p. p ! j \<le> p ! i"
    "\<forall>j<i. p ! j < p ! i"
    using np_argmax_first_max [OF assms(3)] by blast
  have "predict_disease forward self x class_names = Inr (class_names ! i, p ! i, p)"
    using assms i by (simp add: predict_disease_def py_get_def)
  with i show ?thesis by blast
qed

theorem predict_disease_argmax_witness:
  "\<exists>i. predict_disease (\<lambda>m x. Inr [[1/5, 2/5, 2/5]])
          \<lparr>num_classes = 3, input_shape = (224, 224, 3),
           model = Some \<lparr>layers = [], optimizer = None, weights = ()\<rparr>,
           history = (None :: unit option)\<rparr>
          () [''Apple___healthy'', ''Apple___Apple_scab'', ''Tomato___healthy'']
        = Inr ([''Apple___healthy'', ''Apple___Apple_scab'', ''Tomato___healthy''] ! i,
               [1/5, 2/5, 2/5] ! i, [1/5, 2/5, 2/5])
      \<and> i < length [1/5, 2/5, 2/5 :: real]
      \<and> (\<forall>j<length [1/5, 2/5, 2/5 :: real]. [1/5, 2/5, 2/5 :: real] ! j \<le> [1/5, 2/5, 2/5] ! i)
      \<and> (\<forall>j<i. [1/5, 2/5, 2/5 :: real] ! j < [1/5, 2/5, 2/5] ! i)"
  by (rule predict_disease_argmax
        [where m = "\<lparr>layers = [], optimizer = None, weights = ()\<rparr>" and ps = "[]"])
     simp_all

section \<open>Per-class metrics\<close>

text \<open>
  C9. For label sequences whose confusion matrix is \<open>[[8,2],[1,9]]\<close> and the class list
  \<open>["healthy","diseased"]\<close>, \<open>calculate_per_class_metrics\<close> returns for \<open>"healthy"\<close> the
  precision 8/9 (0.889 to three decimals), the recall 8/10 and the F1 score 16/19
  (0.842 to three decimals).
\<close>

theorem per_class_metrics_healthy_scenario:
  assumes "to_class_indices y_true = Inr yt" and "to_class_indices y_pred = Inr yp"
    and "confusion_matrix yt yp = Inr [[8, 2], [1, 9]]"
  shows "\<exists>r m. calculate_per_class_metrics [''healthy'', ''diseased''] y_true y_pred = Inr r
           \<and> r ''healthy'' = Some m \<and> precision m = 8 / 9 \<and> recall m = 8 / 10
           \<and> f1_score m = 16 / 19
           \<and> \<bar>precision m - 0.889\<bar> < 0.0005 \<and> \<bar>f1_score m - 0.842\<bar> < 0.0005"
  using assms
  by (simp add: calculate_per_class_metrics_def enumerate_eq_zip upt_rec
      class_metrics_def cm_get_def cm_col_sum_def cm_row_sum_def cm_sum_def column_def Let_def)

theorem per_class_metrics_healthy_scenario_witness:
  "\<exists>r m. calculate_per_class_metrics [''healthy'', ''diseased'']
       (Indices [0,0,0,0,0,0,0,0,0,0,1,1,1,1,1,1,1,1,1,1])
       (Indices [0,0,0,0,0,0,0,0,1,1,0,1,1,1,1,1,1,1,1,1]) = Inr r
     \<and> r ''healthy'' = Some m \<and> precision m = 8 / 9 \<and> recall m = 8 / 10
     \<and> f1_score m = 16 / 19
     \<and> \<bar>precision m - 0.889\<bar> < 0.0005 \<and> \<bar>f1_score m - 0.842\<bar> < 0.0005"
proof -
  have a: "to_class_indices (Indices [0,0,0,0,0,0,0,0,0,0,1,1,1,1,1,1,1,1,1,1])
             = Inr [0,0,0,0,0,0,0,0,0,0,1,1,1,1,1,1,1,1,1,1]"
    by (simp add: to_class_indices_def)
  have b: "to_class_indices (Indices [0,0,0,0,0,0,0,0,1,1,0,1,1,1,1,1,1,1,1,1])
             = Inr [0,0,0,0,0,0,0,0,1,1,0,1,1,1,1,1,1,1,1,1]"
    by (simp add: to_class_indices_def)
  have c: "confusion_matrix [0,0,0,0,0,0,0,0,0,0,1,1,1,1,1,1,1,1,1,1]
             [0,0,0,0,0,0,0,0,1,1,0,1,1,1,1,1,1,1,1,1] = Inr [[8, 2], [1, 9]]"
    by (simp add: confusion_matrix_def unique_labels_def)
  show ?thesis by (rule per_class_metrics_healthy_scenario [OF a b c])
qed

text \<open>
  When the confusion matrix is square and has a row for class index \<open>i\<close>, the loop body
  returns, and each guarded quotient is 0 when its denominator is not positive.
\<close>

lemma class_metrics_zero_defaults:
  assumes "i < length cm" and "list_all (\<lambda>row. length row = length cm) cm"
  shows "\<exists>m. class_metrics cm i = Inr m
           \<and> (sum_list (map (\<lambda>row. row ! i) cm) \<le> 0 \<longrightarrow> precision m = 0)
           \<and> (sum_list (cm ! i) \<le> 0 \<longrightarrow> recall m = 0)
           \<and> (precision m + recall m \<le> 0 \<longrightarrow> f1_score m = 0)
           \<and> (cm_sum cm - sum_list (cm ! i) \<le> 0 \<longrightarrow> specificity m = 0)
           \<and> support m = sum_list (cm ! i)"
proof -
  have row: "length (cm ! i) = length cm"
    using assms by (simp add: list_all_length)
  have col: "list_all (\<lambda>row. i < length row) cm"
    using assms by (simp add: list_all_iff)
  show ?thesis
    using assms(1) row col
    by (simp add: class_metrics_def cm_get_def cm_col_sum_def cm_row_sum_def column_def Let_def)
qed

text \<open>
  C3. The class list has three classes; the third, \<open>"blight"\<close>, has neither a true nor a
  predicted instance in the batch. The confusion matrix is built from the labels that
  occur, so it is 2 by 2, and reading entry (2, 2) for \<open>"blight"\<close> raises \<open>IndexError\<close>:
  the call fails instead of reporting zeros for that class.
\<close>

theorem per_class_metrics_absent_class_raises:
  "calculate_per_class_metrics [''healthy'', ''rust'', ''blight'']
     (Indices [0, 1, 0]) (Indices [0, 1, 1]) = Inl IndexError"
  by (simp add: calculate_per_class_metrics_def to_class_indices_def confusion_matrix_def
      unique_labels_def class_metrics_def cm_get_def cm_col_sum_def cm_row_sum_def cm_sum_def
      column_def enumerate_eq_zip upt_rec Let_def)

section \<open>Evaluation with probabilities\<close>

text \<open>
  C6. With index-encoded true labels, \<open>calculate_roc_curves\<close> raises \<open>AxisError\<close>: it
  takes \<open>np.argmax(y_true, axis=1)\<close> of the labels as passed, not of the class indices
  that \<open>evaluate_predictions\<close> has computed. So \<open>evaluate_predictions\<close> with
  probabilities never returns a report for index-encoded true labels, and whenever the
  same call without probabilities returns one, the call with probabilities raises
  \<open>AxisError\<close>.
\<close>

theorem evaluate_predictions_index_labels_roc_fails:
  "calculate_roc_curves sk n (Indices ys) proba = Inl AxisError
   \<and> isl (evaluate_predictions sk class_names (Indices ys) y_pred (Some proba))
   \<and> ((\<exists>res. evaluate_predictions sk class_names (Indices ys) y_pred None = Inr res) \<longrightarrow>
        evaluate_predictions sk class_names (Indices ys) y_pred (Some proba) = Inl AxisError)"
proof -
  have r: "calculate_roc_curves sk k (Indices ys) proba = Inl AxisError" for k
    by (simp add: calculate_roc_curves_def np_argmax_axis1_def)
  show ?thesis
    by (auto simp: r evaluate_predictions_def to_class_indices_def Let_def split: sum.splits)
qed

theorem evaluate_predictions_index_labels_roc_fails_witness:
  "(\<exists>res. evaluate_predictions
      \<lparr>sk_accuracy_score = \<lambda>a b. Inr 1, sk_precision_score = \<lambda>a b. Inr 1,
       sk_recall_score = \<lambda>a b. Inr 1, sk_f1_score = \<lambda>a b. Inr 1,
       sk_classification_report = \<lambda>a b c. Inr (), sk_label_binarize = \<lambda>y n. Inr [],
       sk_roc_curve = \<lambda>y s. Inr ([], []), sk_auc = \<lambda>f t. Inr 0\<rparr>
      [''healthy'', ''diseased''] (Indices [0, 1]) (Indices [0, 1]) None = Inr res)
   \<and> evaluate_predictions
      \<lparr>sk_accuracy_score = \<lambda>a b. Inr 1, sk_precision_score = \<lambda>a b. Inr 1,
       sk_recall_score = \<lambda>a b. Inr 1, sk_f1_score = \<lambda>a b. Inr 1,
       sk_classification_report = \<lambda>a b c. Inr (), sk_label_binarize = \<lambda>y n. Inr [],
       sk_roc_curve = \<lambda>y s. Inr ([], []), sk_auc = \<lambda>f t. Inr 0\<rparr>
      [''healthy'', ''diseased''] (Indices [0, 1]) (Indices [0, 1])
      (Some [[9/10, 1/10], [1/5, 4/5]])
     = Inl AxisError"
proof -
  have a: "\<exists>res. evaluate_predictions
      \<lparr>sk_accuracy_score = \<lambda>a b. Inr 1, sk_precision_score = \<lambda>a b. Inr 1,
       sk_recall_score = \<lambda>a b. Inr 1, sk_f1_score = \<lambda>a b. Inr 1,
       sk_classification_report = \<lambda>a b c. Inr (), sk_label_binarize = \<lambda>y n. Inr [],
       sk_roc_curve = \<lambda>y s. Inr ([], []), sk_auc = \<lambda>f t. Inr 0\<rparr>
      [''healthy'', ''diseased''] (Indices [0, 1]) (Indices [0, 1]) None = Inr res"
    by (simp add: evaluate_predictions_def to_class_indices_def confusion_matrix_def
        unique_labels_def)
  from a evaluate_predictions_index_labels_roc_fails show ?thesis by blast
qed

section \<open>Fine-tuning\<close>

text \<open>
  The statements of \<open>fine_tune\<close> before \<open>fit\<close>: on a model whose first layer has sublayers
  they succeed; whenever they succeed the optimizer they bind has the fixed learning
  rate \<open>0.0001 / 10\<close>; on a model whose first layer is a plain layer, such as an input
  layer, reading its \<open>layers\<close> raises \<open>AttributeError\<close>.
\<close>

lemma fine_tune_prepare_ok:
  assumes "layers m = Layer t (Some subs) # rest"
  shows "\<exists>m1. fine_tune_prepare m k = Inr m1 \<and> optimizer m1 = Some (1 / 100000)
           \<and> weights m1 = weights m"
  using assms by (simp add: fine_tune_prepare_def Let_def)

lemma fine_tune_prepare_rate:
  "fine_tune_prepare m k = Inr m1 \<Longrightarrow> optimizer m1 = Some (1 / 100000)"
  by (auto simp: fine_tune_prepare_def Let_def split: list.splits option.splits)

lemma fine_tune_prepare_input_layer:
  "layers m = Layer t None # rest \<Longrightarrow> fine_tune_prepare m k = Inl AttributeError"
  by (simp add: fine_tune_prepare_def)

text \<open>
  With a positive \<open>unfreeze_layers\<close> the first layer becomes trainable, its last
  \<open>unfreeze_layers\<close> sublayers trainable and the ones before them frozen.
\<close>

lemma set_trainable_twice: "set_trainable b (set_trainable c l) = set_trainable b l"
  by (induction l) (auto simp: option.map_comp comp_def intro!: option.map_cong list.map_cong0)

lemma fine_tune_prepare_unfreezes:
  assumes "layers m = Layer t (Some subs) # rest" and "0 < k"
  shows "fine_tune_prepare m k =
           Inr (m\<lparr>layers := Layer True (Some
                     (map (set_trainable False) (take (length subs - nat k) subs)
                      @ map (set_trainable True) (drop (length subs - nat k) subs))) # rest,
                  optimizer := Some (1 / 100000)\<rparr>)"
proof -
  let ?n = "length subs - nat k"
  let ?on = "map (set_trainable True) subs"
  have b: "slice_upto_neg ?on k = take ?n ?on"
    using assms(2) by (simp add: slice_upto_neg_def)
  have l: "length (take ?n ?on) = ?n" by simp
  have f: "map (set_trainable False) (take ?n ?on) = map (set_trainable False) (take ?n subs)"
    by (simp add: take_map set_trainable_twice comp_def)
  have d: "drop ?n ?on = map (set_trainable True) (drop ?n subs)"
    by (simp add: drop_map)
  show ?thesis
    using assms(1) unfolding fine_tune_prepare_def
    by (simp add: Let_def b l f d del: length_take)
qed



text \<open>
  C4 (as amended). For every learning rate \<open>lr\<close> passed to \<open>compile_model\<close>, \<open>fine_tune\<close>
  either raises before its recompile step, so that nothing is recompiled, or recompiles
  with the fixed learning rate \<open>0.0001 / 10\<close>, that is \<open>1 / 100000\<close>, whatever \<open>lr\<close> was,
  and hands that model to \<open>fit\<close>; the fixed rate is \<open>lr / 100\<close> exactly when \<open>lr\<close> is
  \<open>0.001\<close>, the default of \<open>compile_model\<close>.
\<close>

theorem fine_tune_learning_rate_fixed:
  assumes "compile_model self lr = Inr s1"
  shows "\<exists>m. model s1 = Some m \<and> optimizer m = Some lr
           \<and> (case fine_tune_prepare m k of
                 Inl e \<Rightarrow> fine_tune fit s1 tr va ep k = Inl e
               | Inr m1 \<Rightarrow>
                   optimizer m1 = Some (1 / 100000)
                   \<and> fine_tune fit s1 tr va ep k =
                       (case fit m1 tr va ep fine_tune_callbacks of
                          Inl e \<Rightarrow> Inl e
                        | Inr (h, w, r) \<Rightarrow>
                            Inr (h, s1\<lparr>model := Some (m1\<lparr>weights := w, optimizer := r\<rparr>)\<rparr>))
                   \<and> (optimizer m1 = Some (lr / 100) \<longleftrightarrow> lr = default_learning_rate))"
proof -
  obtain mb where mb: "model self = Some mb" and s1: "s1 = self\<lparr>model := Some (mb\<lparr>optimizer := Some lr\<rparr>)\<rparr>"
    using assms by (auto simp: compile_model_def split: option.splits)
  let ?m = "mb\<lparr>optimizer := Some lr\<rparr>"
  have a: "model s1 = Some ?m" "optimizer ?m = Some lr" using s1 by simp_all
  have b: "(case fine_tune_prepare ?m k of
                 Inl e \<Rightarrow> fine_tune fit s1 tr va ep k = Inl e
               | Inr m1 \<Rightarrow>
                   optimizer m1 = Some (1 / 100000)
                   \<and> fine_tune fit s1 tr va ep k =
                       (case fit m1 tr va ep fine_tune_callbacks of
                          Inl e \<Rightarrow> Inl e
                        | Inr (h, w, r) \<Rightarrow>
                            Inr (h, s1\<lparr>model := Some (m1\<lparr>weights := w, optimizer := r\<rparr>)\<rparr>))
                   \<and> (optimizer m1 = Some (lr / 100) \<longleftrightarrow> lr = default_learning_rate))"
  proof (cases "fine_tune_prepare ?m k")
    case (Inl e)
    then show ?thesis using a(1) by (simp add: fine_tune_def)
  next
    case (Inr m1)
    have r: "optimizer m1 = Some (1 / 100000)" using Inr by (rule fine_tune_prepare_rate)
    have "optimizer m1 = Some (lr / 100) \<longleftrightarrow> lr = default_learning_rate"
      using r by (auto simp: default_learning_rate_def)
    with Inr r a(1) show ?thesis by (simp add: fine_tune_def)
  qed
  from a b show ?thesis by blast
qed

theorem fine_tune_learning_rate_fixed_witness:
  "(\<exists>m. model (example_compiled (1 / 100) :: (unit, real option) plant_disease_model) = Some m
        \<and> optimizer m = Some (1 / 100)
        \<and> (case fine_tune_prepare m 50 of
              Inl e \<Rightarrow> fine_tune recording_fit (example_compiled (1 / 100)) () () 10 50 = Inl e
            | Inr m1 \<Rightarrow>
                optimizer m1 = Some (1 / 100000)
                \<and> fine_tune recording_fit (example_compiled (1 / 100)) () () 10 50 =
                    (case recording_fit m1 () () 10 fine_tune_callbacks of
                       Inl e \<Rightarrow> Inl e
                     | Inr (h, w, r) \<Rightarrow>
                         Inr (h, example_compiled (1 / 100)
                                   \<lparr>model := Some (m1\<lparr>weights := w, optimizer := r\<rparr>)\<rparr>))
                \<and> (optimizer m1 = Some ((1 / 100) / 100) \<longleftrightarrow> (1 / 100) = default_learning_rate)))
   \<and> (\<exists>m. model (example_loaded_compiled (1 / 100) :: (unit, real option) plant_disease_model) = Some m
        \<and> optimizer m = Some (1 / 100)
        \<and> (case fine_tune_prepare m 50 of
              Inl e \<Rightarrow> fine_tune recording_fit (example_loaded_compiled (1 / 100)) () () 10 50 = Inl e
            | Inr m1 \<Rightarrow>
                optimizer m1 = Some (1 / 100000)
                \<and> fine_tune recording_fit (example_loaded_compiled (1 / 100)) () () 10 50 =
                    (case recording_fit m1 () () 10 fine_tune_callbacks of
                       Inl e \<Rightarrow> Inl e
                     | Inr (h, w, r) \<Rightarrow>
                         Inr (h, example_loaded_compiled (1 / 100)
                                   \<lparr>model := Some (m1\<lparr>weights := w, optimizer := r\<rparr>)\<rparr>))
                \<and> (optimizer m1 = Some ((1 / 100) / 100) \<longleftrightarrow> (1 / 100) = default_learning_rate)))"
proof -
  have a: "compile_model (example_built :: (unit, real option) plant_disease_model) (1 / 100)
             = Inr (example_compiled (1 / 100))"
    by (simp add: compile_model_def example_built_def example_compiled_def)
  have b: "compile_model (example_loaded :: (unit, real option) plant_disease_model) (1 / 100)
             = Inr (example_loaded_compiled (1 / 100))"
    by (simp add: compile_model_def example_loaded_def example_loaded_compiled_def)
  show ?thesis
    using fine_tune_learning_rate_fixed
        [where k = 50 and fit = recording_fit and tr = "()" and va = "()" and ep = 10, OF a]
      fine_tune_learning_rate_fixed
        [where k = 50 and fit = recording_fit and tr = "()" and va = "()" and ep = 10, OF b]
    by blast
qed

text \<open>
  C4 as stated fails for the initial rate \<open>0.01\<close>. On the model that \<open>build_model\<close>
  creates, \<open>fine_tune\<close> raises \<open>AttributeError\<close> and recompiles nothing. On a loaded model
  whose first layer has sublayers, the rate in effect when \<open>fit\<close> is called is
  \<open>1 / 100000\<close>, not \<open>0.01 / 100\<close>.
\<close>

theorem fine_tune_learning_rate_counterexample:
  "build_model example_efficientnet example_init_head (init_model 38 (224, 224, 3))
     = Inr (example_built :: (unit, real option) plant_disease_model)
   \<and> compile_model (example_built :: (unit, real option) plant_disease_model) (1 / 100)
       = Inr (example_compiled (1 / 100))
   \<and> fine_tune recording_fit (example_compiled (1 / 100)) () () 10 50 = Inl AttributeError
   \<and> load_model example_loader (init_model 38 (224, 224, 3)) ''models/plant_disease_model.h5''
       = Inr (example_loaded :: (unit, real option) plant_disease_model)
   \<and> compile_model (example_loaded :: (unit, real option) plant_disease_model) (1 / 100)
       = Inr (example_loaded_compiled (1 / 100))
   \<and> map_sum id fst (fine_tune recording_fit (example_loaded_compiled (1 / 100)) () () 10 50)
       = Inr (Some (1 / 100000))
   \<and> (1 / 100000 :: real) \<noteq> (1 / 100) / 100"
  by (simp add: build_model_def example_efficientnet_def example_init_head_def init_model_def
      example_built_def example_flat_layers_def example_compiled_def compile_model_def
      fine_tune_def fine_tune_prepare_def load_model_def example_loader_def example_loaded_def
      example_loaded_compiled_def example_nested_layers_def recording_fit_def
      slice_upto_neg_def Let_def numeral_eq_Suc)




section \<open>Preprocessing\<close>

lemma solid_pillow_contract: "pillow_contract solid_pillow"
  by (simp add: pillow_contract_def solid_pillow_def has_shape3_def nonzero_size_def
      list_all_iff)

text \<open>
  The steps of \<open>preprocess_image\<close> on a valid input and the target size (w, h): the array
  taken from the resized RGB image has shape (h, w, 3), and the result is that array,
  scaled or not, inside a batch of one.
\<close>

lemma preprocess_image_steps:
  assumes c: "pillow_contract pil" and v: "valid_image pil img" and w: "0 < w" and h: "0 < h"
    and ts: "target_size self = (w, h)"
  shows "\<exists>img0 img1 img2.
           (case img of NdArray a \<Rightarrow> fromarray pil a | PILImage i \<Rightarrow> Inr i) = Inr img0
           \<and> resize_lanczos pil img0 (w, h) = Inr img1
           \<and> (if mode_of pil img1 \<noteq> ModeRGB then convert_rgb pil img1 else Inr img1) = Inr img2
           \<and> mode_of pil img2 = ModeRGB \<and> size_of pil img2 = (w, h)
           \<and> has_shape3 (np_array pil img2) (h, w, 3)
           \<and> (\<forall>nrm. preprocess_image pil self img nrm =
               Inr (if nrm then Float32 [map (map (map (\<lambda>b. real (unat b) / 255))) (np_array pil img2)]
                    else UInt8 [np_array pil img2]))"
proof -
  obtain img0 where i0: "(case img of NdArray a \<Rightarrow> fromarray pil a | PILImage i \<Rightarrow> Inr i) = Inr img0"
    and nz: "nonzero_size pil img0"
    using v by (auto simp: valid_image_def split: image_input.splits sum.splits)
  obtain img1 where i1: "resize_lanczos pil img0 (w, h) = Inr img1" "size_of pil img1 = (w, h)"
    using c nz w h unfolding pillow_contract_def by blast
  obtain img2 where i2: "(if mode_of pil img1 \<noteq> ModeRGB then convert_rgb pil img1 else Inr img1) = Inr img2"
    "mode_of pil img2 = ModeRGB" "size_of pil img2 = (w, h)"
  proof (cases "mode_of pil img1 = ModeRGB")
    case True
    with i1 that show ?thesis by simp
  next
    case False
    obtain r where "convert_rgb pil img1 = Inr r" "mode_of pil r = ModeRGB"
      "size_of pil r = size_of pil img1"
      using c unfolding pillow_contract_def by blast
    with False i1 that show ?thesis by simp
  qed
  have sh: "has_shape3 (np_array pil img2) (h, w, 3)"
    using c i2(2,3) unfolding pillow_contract_def by fastforce
  have "preprocess_image pil self img nrm =
               Inr (if nrm then Float32 [map (map (map (\<lambda>b. real (unat b) / 255))) (np_array pil img2)]
                    else UInt8 [np_array pil img2])" for nrm
    unfolding preprocess_image_def using i0 i1(1) i2(1) ts by (simp add: Let_def)
  with i0 i1(1) i2 sh show ?thesis by blast
qed

lemma unat_byte_le: "unat (b :: 8 word) \<le> 255"
  using unsigned_less [of b, where ?'a = nat] by simp

lemma byte_scaled_range: "0 \<le> real (unat (b :: 8 word)) / 255 \<and> real (unat b) / 255 \<le> 1"
proof -
  have "real (unat b) \<le> real 255" by (rule of_nat_mono) (rule unat_byte_le)
  moreover have "0 \<le> real (unat b)" by (rule of_nat_0_le_iff)
  ultimately show ?thesis by simp
qed

lemma byte_int_range: "0 \<le> uint (b :: 8 word) \<and> uint b \<le> 255"
  using unsigned_less [of b, where ?'a = int] by simp

text \<open>
  C1. With the default target size (224, 224) and \<open>normalize=True\<close>, \<open>preprocess_image\<close>
  returns for every valid input image a floating-point array of shape (1, 224, 224, 3)
  whose entries all lie in [0, 1].
\<close>

theorem preprocess_image_normalized:
  assumes "pillow_contract pil" and "valid_image pil img" and "target_size self = (224, 224)"
  shows "\<exists>t. preprocess_image pil self img True = Inr (Float32 t)
           \<and> has_shape4 t (1, 224, 224, 3) \<and> all_entries (\<lambda>v. 0 \<le> v \<and> v \<le> 1) t"
proof -
  obtain img2 where a: "has_shape3 (np_array pil img2) (224, 224, 3)"
    and r: "preprocess_image pil self img True =
              Inr (Float32 [map (map (map (\<lambda>b. real (unat b) / 255))) (np_array pil img2)])"
    using preprocess_image_steps [OF assms(1,2) _ _ assms(3)] by auto
  let ?t = "[map (map (map (\<lambda>b. real (unat b) / 255))) (np_array pil img2)]"
  have s: "has_shape4 ?t (1, 224, 224, 3)"
    using a by (simp add: has_shape4_def has_shape3_def list_all_iff)
  have e: "all_entries (\<lambda>v. 0 \<le> v \<and> v \<le> 1) ?t"
    using byte_scaled_range by (simp add: all_entries_def list_all_iff)
  from r s e show ?thesis by blast
qed

theorem preprocess_image_normalized_witness:
  "\<exists>t. preprocess_image solid_pillow default_preprocessor (PILImage (ModeL, 300, 300)) True
          = Inr (Float32 t)
       \<and> has_shape4 t (1, 224, 224, 3) \<and> all_entries (\<lambda>v. 0 \<le> v \<and> v \<le> 1) t"
  by (rule preprocess_image_normalized [OF solid_pillow_contract])
     (simp_all add: valid_image_def nonzero_size_def solid_pillow_def default_preprocessor_def)

text \<open>
  C10. With the default target size and \<open>normalize=False\<close>, \<open>preprocess_image\<close> returns for
  every valid input image the byte array of the input after \<open>fromarray\<close> (for an array
  input), the resize to 224 by 224 and the conversion to RGB (when the mode is another),
  with only the batch dimension added: its shape is (1, 224, 224, 3) and its entries are
  integers in [0, 255]. The normalised result is this same array with every entry
  divided by 255, so the two calls differ by the division only.
\<close>

theorem preprocess_image_raw:
  assumes "pillow_contract pil" and "valid_image pil img" and "target_size self = (224, 224)"
  shows "\<exists>img0 img1 img2.
           (case img of NdArray a \<Rightarrow> fromarray pil a | PILImage i \<Rightarrow> Inr i) = Inr img0
           \<and> resize_lanczos pil img0 (224, 224) = Inr img1
           \<and> (if mode_of pil img1 \<noteq> ModeRGB then convert_rgb pil img1 else Inr img1) = Inr img2
           \<and> preprocess_image pil self img False = Inr (UInt8 [np_array pil img2])
           \<and> has_shape4 [np_array pil img2] (1, 224, 224, 3)
           \<and> all_entries (\<lambda>b. 0 \<le> uint b \<and> uint b \<le> 255) [np_array pil img2]
           \<and> preprocess_image pil self img True
               = Inr (Float32 [map (map (map (\<lambda>b. real (unat b) / 255))) (np_array pil img2)])"
proof -
  obtain img0 img1 img2
    where t: "(case img of NdArray a \<Rightarrow> fromarray pil a | PILImage i \<Rightarrow> Inr i) = Inr img0"
      "resize_lanczos pil img0 (224, 224) = Inr img1"
      "(if mode_of pil img1 \<noteq> ModeRGB then convert_rgb pil img1 else Inr img1) = Inr img2"
    and a: "has_shape3 (np_array pil img2) (224, 224, 3)"
    and r: "preprocess_image pil self img False = Inr (UInt8 [np_array pil img2])"
    and n: "preprocess_image pil self img True =
              Inr (Float32 [map (map (map (\<lambda>b. real (unat b) / 255))) (np_array pil img2)])"
    using preprocess_image_steps [OF assms(1,2) _ _ assms(3)] by auto
  have s: "has_shape4 [np_array pil img2] (1, 224, 224, 3)"
    using a by (simp add: has_shape4_def)
  have e: "all_entries (\<lambda>b. 0 \<le> uint b \<and> uint b \<le> 255) [np_array pil img2]"
    using byte_int_range by (simp add: all_entries_def list_all_iff)
  from t r s e n show ?thesis by blast
qed

theorem preprocess_image_raw_witness:
  "\<exists>img0 img1 img2.
     (case PILImage (ModeL, 300, 300) of
        NdArray a \<Rightarrow> fromarray solid_pillow a | PILImage i \<Rightarrow> Inr i) = Inr img0
     \<and> resize_lanczos solid_pillow img0 (224, 224) = Inr img1
     \<and> (if mode_of solid_pillow img1 \<noteq> ModeRGB then convert_rgb solid_pillow img1
         else Inr img1) = Inr img2
     \<and> preprocess_image solid_pillow default_preprocessor (PILImage (ModeL, 300, 300)) False
         = Inr (UInt8 [np_array solid_pillow img2])
     \<and> has_shape4 [np_array solid_pillow img2] (1, 224, 224, 3)
     \<and> all_entries (\<lambda>b. 0 \<le> uint b \<and> uint b \<le> 255) [np_array solid_pillow img2]
     \<and> preprocess_image solid_pillow default_preprocessor (PILImage (ModeL, 300, 300)) True
         = Inr (Float32 [map (map (map (\<lambda>b. real (unat b) / 255))) (np_array solid_pillow img2)])"
  by (rule preprocess_image_raw [OF solid_pillow_contract])
     (simp_all add: valid_image_def nonzero_size_def solid_pillow_def default_preprocessor_def)

section \<open>Confidence calibration\<close>

lemma max_axis1_ok:
  assumes "list_all (\<lambda>row. row \<noteq> []) rows"
  shows "max_axis1 rows = Inr (map (\<lambda>row. Max (set row)) rows)"
  using assms
proof (induction rows)
  case Nil
  then show ?case by simp
next
  case (Cons r rs)
  then obtain x xs where r: "r = x # xs" by (cases r) auto
  have "fold max xs x = Max (set (x # xs))" by (rule Max.set_eq_fold [symmetric])
  with Cons r show ?case by simp
qed

lemma linspace_bins:
  assumes "0 \<le> n"
  shows "\<exists>bb. linspace01 (n + 1) = Inr bb \<and> zip (butlast bb) (tl bb) = equal_width_bins (nat n)"
proof (cases "n = 0")
  case True
  then show ?thesis by (simp add: linspace01_def equal_width_bins_def)
next
  case False
  define k where "k = nat n"
  have n: "n = int k" "0 < k" using assms False by (simp_all add: k_def)
  let ?f = "\<lambda>i. real i / real k"
  have bb: "linspace01 (n + 1) = Inr (map ?f [0..<Suc k])"
    using n by (simp add: linspace01_def nat_add_distrib del: upt_Suc)
  have b: "butlast (map ?f [0..<Suc k]) = map ?f [0..<k]"
    by (simp add: map_butlast [symmetric])
  have "tl [0..<Suc k] = map Suc [0..<k]"
    by (simp add: tl_upt map_Suc_upt del: upt_Suc)
  then have t: "tl (map ?f [0..<Suc k]) = map (\<lambda>i. real (Suc i) / real k) [0..<k]"
    by (simp add: map_tl [symmetric] comp_def del: upt_Suc)
  have "zip (map ?f [0..<k]) (map (\<lambda>i. real (Suc i) / real k) [0..<k])
          = map (\<lambda>i. (?f i, real (Suc i) / real k)) [0..<k]"
    by (simp add: zip_map_map zip_same_conv_map)
  with bb b t show ?thesis by (simp add: equal_width_bins_def k_def del: upt_Suc)
qed

lemma select_samples:
  assumes "length ys = length ps" "length ps = length cs"
  shows "map fst (filter snd (zip ys (in_bin lo up cs)))
           = map fst (bin_samples (lo, up) (zip ys (zip ps cs)))"
    and "map fst (filter snd (zip ps (in_bin lo up cs)))
           = map (\<lambda>s. fst (snd s)) (bin_samples (lo, up) (zip ys (zip ps cs)))"
    and "map fst (filter snd (zip cs (in_bin lo up cs)))
           = map (\<lambda>s. snd (snd s)) (bin_samples (lo, up) (zip ys (zip ps cs)))"
    and "length (filter id (in_bin lo up cs)) = length (bin_samples (lo, up) (zip ys (zip ps cs)))"
  using assms
  by (induction ys ps cs rule: list_induct3; simp add: in_bin_def bin_samples_def)+

lemma sum_of_bool: "sum_list (map of_bool bs) = real (length (filter id bs))"
  by (induction bs) auto

lemma np_mean_bool_eq:
  "np_mean_bool bs = (if bs = [] then None else Some (real (length (filter id bs)) / real (length bs)))"
  by (simp add: np_mean_bool_def np_mean_def sum_of_bool)

lemma bin_accuracy_confidence_spec:
  assumes l: "length ys = length ps" "length ps = length cs" and ne: "cs \<noteq> []"
  shows "bin_accuracy_confidence ys ps cs b
           = Inr (Some (spec_bin_accuracy b (zip ys (zip ps cs))),
                  Some (spec_bin_confidence b (zip ys (zip ps cs))))"
proof -
  let ?S = "zip ys (zip ps cs)"
  let ?m = "bin_samples b ?S"
  obtain lo up where b: "b = (lo, up)" by (cases b) auto
  have len: "length (in_bin lo up cs) = length cs" by (simp add: in_bin_def)
  have pb: "np_mean_bool (in_bin lo up cs) = Some (real (length ?m) / real (length cs))"
    using ne select_samples(4) [OF l, of lo up] by (simp add: np_mean_bool_eq in_bin_def b)
  show ?thesis
  proof (cases "?m = []")
    case True
    then show ?thesis
      using pb by (simp add: bin_accuracy_confidence_def b fgt0_def Let_def
          spec_bin_accuracy_def spec_bin_confidence_def)
  next
    case False
    then have pos: "fgt0 (np_mean_bool (in_bin lo up cs))"
      using pb ne by (simp add: fgt0_def)
    have s1: "mask_select ys (in_bin lo up cs) = Inr (map fst ?m)"
      using l select_samples(1) [OF l, of lo up] by (simp add: mask_select_def len b)
    have s2: "mask_select ps (in_bin lo up cs) = Inr (map (\<lambda>s. fst (snd s)) ?m)"
      using l select_samples(2) [OF l, of lo up] by (simp add: mask_select_def len b)
    have s3: "mask_select cs (in_bin lo up cs) = Inr (map (\<lambda>s. snd (snd s)) ?m)"
      using l select_samples(3) [OF l, of lo up] by (simp add: mask_select_def len b)
    have eq: "map2 (=) (map fst ?m) (map (\<lambda>s. fst (snd s)) ?m) = map (\<lambda>s. fst s = fst (snd s)) ?m"
      by (simp add: zip_map_map zip_same_conv_map)
    have acc: "np_mean_bool (map (\<lambda>s. fst s = fst (snd s)) ?m)
                 = Some (spec_bin_accuracy b ?S)"
      using False by (simp add: np_mean_bool_eq spec_bin_accuracy_def Let_def filter_map comp_def)
    have conf: "np_mean (map (\<lambda>s. snd (snd s)) ?m) = Some (spec_bin_confidence b ?S)"
      using False by (simp add: np_mean_def spec_bin_confidence_def Let_def)
    show ?thesis
      using pos s1 s2 s3 acc conf eq unfolding b
      by (simp add: bin_accuracy_confidence_def Let_def)
  qed
qed

lemma calibration_bins_spec:
  assumes "length ys = length ps" "length ps = length cs" "cs \<noteq> []"
  shows "calibration_bins ys ps cs bins
           = Inr (map (\<lambda>b. Some (spec_bin_accuracy b (zip ys (zip ps cs)))) bins,
                  map (\<lambda>b. Some (spec_bin_confidence b (zip ys (zip ps cs)))) bins)"
  by (induction bins) (simp_all add: bin_accuracy_confidence_spec [OF assms])

lemma ece_loop_spec:
  assumes l: "length ys = length ps" "length ps = length cs" and ne: "cs \<noteq> []"
    and d: "drop k bins = bs"
  shows "ece_loop cs (map (\<lambda>b. Some (spec_bin_accuracy b (zip ys (zip ps cs)))) bins)
           (map (\<lambda>b. Some (spec_bin_confidence b (zip ys (zip ps cs)))) bins)
           (enumerate k bs) (Some e)
         = Inr (Some (e + spec_ece bs (zip ys (zip ps cs))))"
  using d
proof (induction bs arbitrary: k e)
  case Nil
  then show ?case by (simp add: spec_ece_def)
next
  case (Cons b bs)
  let ?S = "zip ys (zip ps cs)"
  have k: "k < length bins" using Cons.prems by (cases "k < length bins") auto
  have bk: "bins ! k = b" using Cons.prems by (rule nth_via_drop)
  have rest: "drop (Suc k) bins = bs"
    using Cons.prems by (metis drop_Suc list.sel(3) tl_drop)
  obtain lo up where b: "b = (lo, up)" by (cases b) auto
  have pb: "np_mean_bool (in_bin (fst b) (snd b) cs) = Some (spec_bin_weight b ?S)"
    using ne l select_samples(4) [OF l, of lo up]
    by (simp add: np_mean_bool_eq in_bin_def b spec_bin_weight_def)
  show ?case
    using Cons.IH [OF rest] k bk pb
    by (simp add: py_get_def Let_def fadd_def fmul_def fabs_diff_def spec_ece_def add.assoc)
qed

text \<open>
  \<open>np.argmax\<close> of a non-empty row is the class of top probability, lowest index first.
\<close>

lemma np_argmax_top_class:
  assumes "p \<noteq> []"
  shows "np_argmax p = Inr (nat (top_class p))"
proof -
  obtain i where i: "np_argmax p = Inr i" "i < length p" "\<forall>j<length p. p ! j \<le> p ! i"
    "\<forall>j<i. p ! j < p ! i"
    using np_argmax_first_max [OF assms] by blast
  have mx: "Max (set p) = p ! i"
  proof (rule Max_eqI)
    show "finite (set p)" by simp
    show "y \<le> p ! i" if "y \<in> set p" for y
      using that i(3) by (auto simp: in_set_conv_nth)
    show "p ! i \<in> set p" using i(2) by simp
  qed
  have "takeWhile (\<lambda>x. x \<noteq> Max (set p)) p = take i p"
  proof (rule takeWhile_eq_take_P_nth)
    show "p ! j \<noteq> Max (set p)" if "j < i" "j < length p" for j
      using that i(4) mx by auto
    show "\<not> p ! i \<noteq> Max (set p)" if "i < length p"
      using mx by simp
  qed
  then have "top_class p = int i"
    using i(2) by (simp add: top_class_def top_probability_def)
  with i(1) show ?thesis by simp
qed

lemma argmax_axis1_top_class:
  assumes "list_all (\<lambda>row. row \<noteq> []) rows"
  shows "argmax_axis1 rows = Inr (map top_class rows)"
  using assms
proof (induction rows)
  case Nil
  then show ?case by simp
next
  case (Cons r rs)
  then have "np_argmax r = Inr (nat (top_class r))" by (simp add: np_argmax_top_class)
  moreover have "0 \<le> top_class r" by (simp add: top_class_def)
  ultimately show ?case using Cons by simp
qed

text \<open>
  C7 (as amended). For every non-empty batch with one true label per row of
  probabilities, non-empty rows and a non-negative number of bins,
  \<open>calculate_confidence_calibration\<close> returns; its Expected Calibration Error is the sum
  over the equal-width bins of the fraction of predictions in the bin times the absolute
  gap between the bin's accuracy and its mean confidence; the two lists hold these
  accuracies and confidences; and for every empty bin the accuracy entry is 0, the
  confidence entry is 0 and the bin's term of the sum is 0.
\<close>

theorem calibration_ece_matches_specification:
  assumes "to_class_indices y_true = Inr ytc" and "length ytc = length proba"
    and "proba \<noteq> []" and "list_all (\<lambda>row. row \<noteq> []) proba" and "0 \<le> n_bins"
  shows "\<exists>r. calculate_confidence_calibration y_true proba n_bins = Inr r
           \<and> accuracies r =
               map (\<lambda>b. Some (spec_bin_accuracy b (prediction_samples ytc proba)))
                 (equal_width_bins (nat n_bins))
           \<and> confidences r =
               map (\<lambda>b. Some (spec_bin_confidence b (prediction_samples ytc proba)))
                 (equal_width_bins (nat n_bins))
           \<and> expected_calibration_error r =
               Some (spec_ece (equal_width_bins (nat n_bins)) (prediction_samples ytc proba))
           \<and> (\<forall>i<nat n_bins.
                 bin_samples (equal_width_bins (nat n_bins) ! i) (prediction_samples ytc proba) = []
                 \<longrightarrow> accuracies r ! i = Some 0 \<and> confidences r ! i = Some 0
                     \<and> spec_bin_weight (equal_width_bins (nat n_bins) ! i)
                           (prediction_samples ytc proba)
                         * \<bar>spec_bin_accuracy (equal_width_bins (nat n_bins) ! i)
                               (prediction_samples ytc proba)
                            - spec_bin_confidence (equal_width_bins (nat n_bins) ! i)
                               (prediction_samples ytc proba)\<bar> = 0)"
proof -
  let ?mp = "map top_probability proba"
  let ?pred = "map top_class proba"
  let ?bins = "equal_width_bins (nat n_bins)"
  let ?S = "prediction_samples ytc proba"
  have pred: "argmax_axis1 proba = Inr ?pred" by (rule argmax_axis1_top_class [OF assms(4)])
  have S: "?S = zip ytc (zip ?pred ?mp)" by (simp add: prediction_samples_def)
  have mp: "max_axis1 proba = Inr ?mp"
    using max_axis1_ok [OF assms(4)] by (simp add: top_probability_def)
  obtain bb where bb: "linspace01 (n_bins + 1) = Inr bb" "zip (butlast bb) (tl bb) = ?bins"
    using linspace_bins [OF assms(5)] by blast
  have l1: "length ytc = length ?pred" using assms(2) by simp
  have l2: "length ?pred = length ?mp" by simp
  have ne: "?mp \<noteq> []" using assms(3) by simp
  let ?accs = "map (\<lambda>b. Some (spec_bin_accuracy b ?S)) ?bins"
  let ?confs = "map (\<lambda>b. Some (spec_bin_confidence b ?S)) ?bins"
  have cb: "calibration_bins ytc ?pred ?mp ?bins = Inr (?accs, ?confs)"
    unfolding S by (rule calibration_bins_spec [OF l1 l2 ne])
  have el: "ece_loop ?mp ?accs ?confs (enumerate 0 ?bins) (Some 0)
              = Inr (Some (0 + spec_ece ?bins ?S))"
    unfolding S by (rule ece_loop_spec [OF l1 l2 ne]) simp
  let ?r = "\<lparr>accuracies = ?accs, confidences = ?confs,
             expected_calibration_error = Some (spec_ece ?bins ?S), bin_boundaries = bb\<rparr>"
  have res: "calculate_confidence_calibration y_true proba n_bins = Inr ?r"
    using assms(1) mp pred bb cb el
    by (simp add: calculate_confidence_calibration_def Let_def)
  have len: "length ?bins = nat n_bins" by (simp add: equal_width_bins_def)
  have empty: "accuracies ?r ! i = Some 0 \<and> confidences ?r ! i = Some 0
                 \<and> spec_bin_weight (?bins ! i) ?S
                     * \<bar>spec_bin_accuracy (?bins ! i) ?S - spec_bin_confidence (?bins ! i) ?S\<bar> = 0"
    if "i < nat n_bins" "bin_samples (?bins ! i) ?S = []" for i
    using that len by (simp add: spec_bin_accuracy_def spec_bin_confidence_def spec_bin_weight_def)
  show ?thesis
    using res empty by (intro exI [of _ ?r]) simp
qed

theorem calibration_ece_matches_specification_witness:
  "\<exists>r. calculate_confidence_calibration (Indices [0, 1, 1])
          [[9/10, 1/10], [2/5, 3/5], [7/10, 3/10]] 2 = Inr r
       \<and> accuracies r =
           map (\<lambda>b. Some (spec_bin_accuracy b
                  (prediction_samples [0, 1, 1] [[9/10, 1/10], [2/5, 3/5], [7/10, 3/10]])))
             (equal_width_bins (nat 2))
       \<and> confidences r =
           map (\<lambda>b. Some (spec_bin_confidence b
                  (prediction_samples [0, 1, 1] [[9/10, 1/10], [2/5, 3/5], [7/10, 3/10]])))
             (equal_width_bins (nat 2))
       \<and> expected_calibration_error r =
           Some (spec_ece (equal_width_bins (nat 2))
                  (prediction_samples [0, 1, 1] [[9/10, 1/10], [2/5, 3/5], [7/10, 3/10]]))
       \<and> (\<forall>i<nat 2.
             bin_samples (equal_width_bins (nat 2) ! i)
               (prediction_samples [0, 1, 1] [[9/10, 1/10], [2/5, 3/5], [7/10, 3/10]]) = []
             \<longrightarrow> accuracies r ! i = Some 0 \<and> confidences r ! i = Some 0
                 \<and> spec_bin_weight (equal_width_bins (nat 2) ! i)
                       (prediction_samples [0, 1, 1] [[9/10, 1/10], [2/5, 3/5], [7/10, 3/10]])
                     * \<bar>spec_bin_accuracy (equal_width_bins (nat 2) ! i)
                           (prediction_samples [0, 1, 1] [[9/10, 1/10], [2/5, 3/5], [7/10, 3/10]])
                        - spec_bin_confidence (equal_width_bins (nat 2) ! i)
                           (prediction_samples [0, 1, 1] [[9/10, 1/10], [2/5, 3/5], [7/10, 3/10]])\<bar>
                   = 0)"
  by (rule calibration_ece_matches_specification) (simp_all add: to_class_indices_def)

text \<open>
  C7 as stated fails on the empty batch: every bin is empty and the lists hold zeros,
  but the mean of the empty bin mask is NaN, so the Expected Calibration Error is NaN,
  where the sum the claim describes is 0.
\<close>

theorem calibration_empty_batch_counterexample:
  "calculate_confidence_calibration (Indices []) [] 2
     = Inr \<lparr>accuracies = [Some 0, Some 0], confidences = [Some 0, Some 0],
            expected_calibration_error = None, bin_boundaries = [0, 1 / 2, 1]\<rparr>
   \<and> spec_ece (equal_width_bins 2) (prediction_samples [] []) = 0"
  by (simp add: calculate_confidence_calibration_def to_class_indices_def linspace01_def
      bin_accuracy_confidence_def in_bin_def np_mean_bool_def np_mean_def fgt0_def
      py_get_def fadd_def fmul_def fabs_diff_def enumerate_eq_zip upt_rec Let_def
      spec_ece_def prediction_samples_def spec_bin_weight_def bin_samples_def)

text \<open>
  The specification's quantities on the batch of the witness: the predicted classes are
  0, 1, 0, all three predictions fall into the upper bin, two are correct, and the
  Expected Calibration Error is \<open>\<bar>2/3 - 11/15\<bar>\<close>.
\<close>

lemma spec_ece_example:
  "spec_ece (equal_width_bins 2)
     (prediction_samples [0, 1, 1] [[9/10, 1/10], [2/5, 3/5], [7/10, 3/10]]) = 1 / 15"
  by (simp add: spec_ece_def equal_width_bins_def prediction_samples_def top_class_def
      top_probability_def spec_bin_weight_def spec_bin_accuracy_def spec_bin_confidence_def
      bin_samples_def upt_rec Let_def)

end
